theory Spec2Isabelle
  imports Complex_Main "HOL-Library.Sublist" "HOL-Library.Word"
begin

section \<open>Application.cpp: the shader source loader\<close>

text \<open>
  The program is one translation unit, \<^verbatim>\<open>Application.cpp\<close>. Its only routine with
  branching logic is \<^verbatim>\<open>ParseShader\<close>, which reads a text file line by line and
  distributes the lines over two string streams.
\<close>

subsection \<open>Strings, streams and lines\<close>

text \<open>
  \<^verbatim>\<open>std::string::find(const char*)\<close> yields the first position at which the pattern
  occurs, or \<^verbatim>\<open>npos\<close>, which is \<open>None\<close> here.
\<close>

fun str_find :: "string \<Rightarrow> string \<Rightarrow> nat option" where
  "str_find [] pat = (if pat = [] then Some 0 else None)"
| "str_find (c # cs) pat =
     (if prefix pat (c # cs) then Some 0 else map_option Suc (str_find cs pat))"

text \<open>
  A file system maps a path to the bytes of the file. \<^verbatim>\<open>std::ifstream stream(filepath)\<close>
  on a path that cannot be opened gives a stream in the failed state, from which every
  \<^verbatim>\<open>getline\<close> fails at once: it reads like an empty file.
\<close>

type_synonym filesystem = "string \<rightharpoonup> string"

definition ifstream :: "filesystem \<Rightarrow> string \<Rightarrow> string" where
  "ifstream fs filepath = (case fs filepath of None \<Rightarrow> [] | Some bytes \<Rightarrow> bytes)"

definition newline :: char where
  "newline = CHR 0x0A"

text \<open>
  \<^verbatim>\<open>getline(stream, line)\<close> extracts characters up to the next line terminator, which it
  consumes and does not store. It fails (the loop condition is false) when no character
  at all could be extracted; a last line without terminator is still delivered. The
  result is the line and the rest of the stream.
\<close>

fun getline :: "string \<Rightarrow> (string \<times> string) option" where
  "getline [] = None"
| "getline (c # cs) =
     Some (takeWhile (\<lambda>x. x \<noteq> newline) (c # cs),
           drop 1 (dropWhile (\<lambda>x. x \<noteq> newline) (c # cs)))"

subsection \<open>ParseShader\<close>

datatype ShaderType = NONE | VERTEX | FRAGMENT

text \<open>The enumerators' values, as the cast \<^verbatim>\<open>(int)type\<close> reads them.\<close>

fun int_of_ShaderType :: "ShaderType \<Rightarrow> int" where
  "int_of_ShaderType NONE = -1"
| "int_of_ShaderType VERTEX = 0"
| "int_of_ShaderType FRAGMENT = 1"

record ShaderProgramSource =
  vertexSource :: string
  fragmentSource :: string

text \<open>
  The loop's variables: the current target and the array \<^verbatim>\<open>std::stringstream ss[2]\<close>,
  a list of two strings.
\<close>

record parse_state =
  type :: ShaderType
  ss :: "string list"

text \<open>
  Indexing the two-element array outside \<open>0..1\<close> is undefined behaviour in C++, and so is
  reading a character buffer that nothing was written to. The model makes each an error
  value, so that no result is claimed for such a run.
\<close>

datatype error = ArrayIndexOutOfBounds int | UninitialisedRead

text \<open>\<^verbatim>\<open>ss[i] << line << '\n'\<close>\<close>

definition append_line :: "string list \<Rightarrow> int \<Rightarrow> string \<Rightarrow> error + string list" where
  "append_line streams i line =
     (if 0 \<le> i \<and> i < int (length streams)
      then Inr (streams[nat i := streams ! nat i @ line @ [newline]])
      else Inl (ArrayIndexOutOfBounds i))"

text \<open>The body of the \<^verbatim>\<open>while\<close> loop, for one line.\<close>

definition parse_line :: "parse_state \<Rightarrow> string \<Rightarrow> error + parse_state" where
  "parse_line st line =
     (if str_find line ''#shader'' \<noteq> None then
        (if str_find line ''vertex'' \<noteq> None then Inr (st\<lparr>type := VERTEX\<rparr>)
         else if str_find line ''fragment'' \<noteq> None then Inr (st\<lparr>type := FRAGMENT\<rparr>)
         else Inr st)
      else
        (case append_line (ss st) (int_of_ShaderType (type st)) line of
           Inl e \<Rightarrow> Inl e
         | Inr streams \<Rightarrow> Inr (st\<lparr>ss := streams\<rparr>)))"

text \<open>\<^verbatim>\<open>while (getline(stream, line)) { ... }\<close>\<close>

function parse_loop :: "parse_state \<Rightarrow> string \<Rightarrow> error + parse_state" where
  "parse_loop st stream =
     (case getline stream of
        None \<Rightarrow> Inr st
      | Some (line, rest) \<Rightarrow>
          (case parse_line st line of
             Inl e \<Rightarrow> Inl e
           | Inr st' \<Rightarrow> parse_loop st' rest))"
  by pat_completeness auto
termination
proof (relation "measure (\<lambda>(st, stream). length stream)")
  show "wf (measure (\<lambda>(st :: parse_state, stream :: string). length stream))" by simp
next
  fix st st' :: parse_state and stream :: string and p line rest
  assume "getline stream = Some p" and "(line, rest) = p"
  then obtain c cs where "stream = c # cs"
    and "rest = drop 1 (dropWhile (\<lambda>x. x \<noteq> newline) (c # cs))"
    by (cases stream) auto
  moreover have "length (dropWhile (\<lambda>x. x \<noteq> newline) (c # cs)) \<le> length (c # cs)"
    by (rule length_dropWhile_le)
  ultimately show "((st', rest), (st, stream)) \<in> measure (\<lambda>(st, stream). length stream)"
    by simp
qed

definition ParseShader :: "filesystem \<Rightarrow> string \<Rightarrow> error + ShaderProgramSource" where
  "ParseShader fs filepath =
     (case parse_loop \<lparr>type = NONE, ss = ['''', '''']\<rparr> (ifstream fs filepath) of
        Inl e \<Rightarrow> Inl e
      | Inr st \<Rightarrow> Inr \<lparr>vertexSource = ss st ! 0, fragmentSource = ss st ! 1\<rparr>)"

section \<open>The graphics driver and the windowing layer\<close>

text \<open>
  GLFW, GLEW and OpenGL are external collaborators. The model records every call the
  program makes, in program order, with the arguments it passes, and takes the values
  the collaborators return from a record of answers. The named constants of the GL
  headers are only ever passed on or compared for equality, so they are symbolic.
\<close>

datatype GLenum =
    GL_VERTEX_SHADER | GL_FRAGMENT_SHADER | GL_COMPILE_STATUS | GL_INFO_LOG_LENGTH
  | GL_ARRAY_BUFFER | GL_ELEMENT_ARRAY_BUFFER | GL_STATIC_DRAW | GL_FLOAT
  | GL_UNSIGNED_INT | GL_TRIANGLES | GL_VERSION | GL_COLOR_BUFFER_BIT

type_synonym GLuint = "32 word"

type_synonym window = nat

definition GL_FALSE :: int where
  "GL_FALSE = 0"

definition GLEW_OK :: int where
  "GLEW_OK = 0"

definition sizeof_float :: nat where
  "sizeof_float = 4"

definition sizeof_unsigned_int :: nat where
  "sizeof_unsigned_int = 4"

text \<open>\<^verbatim>\<open>size_t\<close> is taken to have 64 bits; arithmetic in it wraps around.\<close>

type_synonym size_t = "64 word"

definition sizeof_char :: size_t where
  "sizeof_char = 1"

text \<open>
  A \<^verbatim>\<open>const char*\<close> handed over without a length designates the characters up to the
  first NUL: this is what \<^verbatim>\<open>glShaderSource\<close> with a null length array gets from
  \<^verbatim>\<open>source.c_str()\<close>, and what \<^verbatim>\<open>std::cout << message\<close> prints.
\<close>

definition NUL :: char where
  "NUL = CHR 0x00"

definition c_str :: "string \<Rightarrow> string" where
  "c_str s = takeWhile (\<lambda>c. c \<noteq> NUL) s"

text \<open>The array a data pointer designates, with its elements.\<close>

datatype array = FloatArray "real list" | UIntArray "GLuint list"

fun sizeof_array :: "array \<Rightarrow> nat" where
  "sizeof_array (FloatArray xs) = length xs * sizeof_float"
| "sizeof_array (UIntArray xs) = length xs * sizeof_unsigned_int"

datatype call =
    GlfwInit
  | GlfwCreateWindow nat nat string
  | GlfwTerminate
  | GlfwMakeContextCurrent window
  | GlewInit
  | GlGetString GLenum
  | Print string
  | GlGenBuffers nat
  | GlBindBuffer GLenum GLuint
  | GlBufferData GLenum nat array GLenum
  | GlEnableVertexAttribArray nat
  | GlVertexAttribPointer nat nat GLenum bool nat nat
  | GlCreateShader GLenum
  | GlShaderSource GLuint string
  | GlCompileShader GLuint
  | GlGetShaderiv GLuint GLenum
  | Alloca size_t
  | GlGetShaderInfoLog GLuint int
  | GlDeleteShader GLuint
  | GlCreateProgram
  | GlAttachShader GLuint GLuint
  | GlLinkProgram GLuint
  | GlValidateProgram GLuint
  | GlUseProgram GLuint
  | GlDeleteProgram GLuint
  | GlfwWindowShouldClose window
  | GlClear GLenum
  | GlDrawElements GLenum nat GLenum nat
  | GlfwSwapBuffers window
  | GlfwPollEvents

text \<open>
  What the collaborators answer. \<open>glfwCreateWindow_r\<close> is the window pointer, \<open>None\<close> for
  \<^verbatim>\<open>NULL\<close>; \<open>glGenBuffers_r d k\<close> is the name written by the \<open>k\<close>-th call of
  \<^verbatim>\<open>glGenBuffers\<close>; the answers about a shader object depend on the stage it was created
  for and the source text submitted to it; \<open>glGetShaderInfoLog_r\<close> is the information log
  of the shader object, of which \<^verbatim>\<open>glGetShaderInfoLog\<close> stores as much as the buffer size
  it is given allows; \<open>glfwWindowShouldClose_r d k\<close> is the answer to the \<open>k\<close>-th test of
  the loop condition.
\<close>

record driver =
  files :: filesystem
  glfwInit_r :: int
  glfwCreateWindow_r :: "window option"
  glewInit_r :: int
  glGetString_r :: string
  glGenBuffers_r :: "nat \<Rightarrow> GLuint"
  glCreateProgram_r :: GLuint
  glCreateShader_r :: "GLenum \<Rightarrow> GLuint"
  glGetShaderiv_COMPILE_STATUS_r :: "GLenum \<Rightarrow> string \<Rightarrow> int"
  glGetShaderiv_INFO_LOG_LENGTH_r :: "GLenum \<Rightarrow> string \<Rightarrow> int"
  glGetShaderInfoLog_r :: "GLenum \<Rightarrow> string \<Rightarrow> string"
  glfwWindowShouldClose_r :: "nat \<Rightarrow> int"

section \<open>Compiling and linking\<close>

text \<open>
  \<^verbatim>\<open>CompileShader\<close> returns the stage handle together with the calls it made. Each
  \<^verbatim>\<open>std::cout << ... << std::endl\<close> statement is one \<open>Print\<close>.

  The source goes to the driver as \<^verbatim>\<open>source.c_str()\<close> with a null length array, one
  string. On failure the message buffer has \<^verbatim>\<open>length * sizeof(char)\<close> bytes, computed in
  \<^verbatim>\<open>size_t\<close>. Given the buffer size \<^verbatim>\<open>length\<close>, the driver stores at most
  \<^verbatim>\<open>length - 1\<close> characters of the log and a terminating NUL; with a size that is not
  positive it stores nothing, and printing \<^verbatim>\<open>message\<close> then reads what was never written.
\<close>

definition CompileShader :: "driver \<Rightarrow> GLenum \<Rightarrow> string \<Rightarrow> error + GLuint \<times> call list" where
  "CompileShader d ty source =
     (let shader_id = glCreateShader_r d ty;
          src = c_str source;
          result = glGetShaderiv_COMPILE_STATUS_r d ty src;
          calls = [GlCreateShader ty, GlShaderSource shader_id src,
                   GlCompileShader shader_id, GlGetShaderiv shader_id GL_COMPILE_STATUS]
      in if result = GL_FALSE then
           (let len = glGetShaderiv_INFO_LOG_LENGTH_r d ty src
            in if len \<le> 0 then Inl UninitialisedRead
               else
                 (let message = c_str (take (nat (len - 1)) (glGetShaderInfoLog_r d ty src))
                  in Inr (0, calls @
                       [GlGetShaderiv shader_id GL_INFO_LOG_LENGTH,
                        Alloca (word_of_int len * sizeof_char),
                        GlGetShaderInfoLog shader_id len,
                        Print (''Failed to compile ''
                               @ (if ty = GL_VERTEX_SHADER then ''vertex'' else ''fragment'')
                               @ '' shader!''),
                        Print message,
                        GlDeleteShader shader_id])))
         else Inr (shader_id, calls))"

text \<open>An error in either compilation ends \<^verbatim>\<open>CreateShader\<close> with that error.\<close>

definition CreateShader :: "driver \<Rightarrow> string \<Rightarrow> string \<Rightarrow> error + GLuint \<times> call list" where
  "CreateShader d vertexShader fragmentShader =
     (let program = glCreateProgram_r d
      in case CompileShader d GL_VERTEX_SHADER vertexShader of
           Inl e \<Rightarrow> Inl e
         | Inr (vs, vs_calls) \<Rightarrow>
             (case CompileShader d GL_FRAGMENT_SHADER fragmentShader of
                Inl e \<Rightarrow> Inl e
              | Inr (fs, fs_calls) \<Rightarrow>
                  Inr (program,
                       [GlCreateProgram] @ vs_calls @ fs_calls @
                       [GlAttachShader program vs, GlAttachShader program fs,
                        GlLinkProgram program, GlValidateProgram program,
                        GlDeleteShader vs, GlDeleteShader fs])))"

section \<open>main\<close>

definition positions :: "real list" where
  "positions = [- 0.5, - 0.5,  0.5, - 0.5,  0.5, 0.5,  - 0.5, 0.5]"

definition indices :: "GLuint list" where
  "indices = [0, 1, 2,  2, 3, 0]"

text \<open>The calls from \<^verbatim>\<open>glfwMakeContextCurrent\<close> to the printing of the GL version.\<close>

definition make_context :: "driver \<Rightarrow> window \<Rightarrow> call list" where
  "make_context d window =
     [GlfwMakeContextCurrent window, GlewInit]
     @ (if glewInit_r d \<noteq> GLEW_OK then [Print ''ERROR''] else [])
     @ [GlGetString GL_VERSION, Print (glGetString_r d)]"

text \<open>Creating and filling the vertex buffer and the index buffer.\<close>

definition upload_geometry :: "driver \<Rightarrow> call list" where
  "upload_geometry d =
     (let buffer = glGenBuffers_r d 0;
          indexBufferObject = glGenBuffers_r d 1
      in [GlGenBuffers 1,
          GlBindBuffer GL_ARRAY_BUFFER buffer,
          GlBufferData GL_ARRAY_BUFFER (6 * 2 * sizeof_float) (FloatArray positions)
            GL_STATIC_DRAW,
          GlEnableVertexAttribArray 0,
          GlVertexAttribPointer 0 2 GL_FLOAT False (sizeof_float * 2) 0,
          GlGenBuffers 1,
          GlBindBuffer GL_ELEMENT_ARRAY_BUFFER indexBufferObject,
          GlBufferData GL_ELEMENT_ARRAY_BUFFER (6 * sizeof_unsigned_int) (UIntArray indices)
            GL_STATIC_DRAW])"

text \<open>The body of the render loop.\<close>

definition frame :: "window \<Rightarrow> call list" where
  "frame window =
     [GlClear GL_COLOR_BUFFER_BIT,
      GlDrawElements GL_TRIANGLES 6 GL_UNSIGNED_INT 0,
      GlfwSwapBuffers window,
      GlfwPollEvents]"

text \<open>
  \<^verbatim>\<open>while (!glfwWindowShouldClose(window)) { ... }\<close>: \<open>k\<close> counts the tests of the
  condition made so far, \<open>calls\<close> collects the calls. The loop need not end; then the
  value is \<open>None\<close>.
\<close>

partial_function (option) render_loop ::
  "driver \<Rightarrow> window \<Rightarrow> nat \<Rightarrow> call list \<Rightarrow> call list option" where
  "render_loop d window k calls =
     (if glfwWindowShouldClose_r d k = 0
      then render_loop d window (Suc k) (calls @ GlfwWindowShouldClose window # frame window)
      else Some (calls @ [GlfwWindowShouldClose window]))"

declare render_loop.simps [code]

text \<open>
  \<^verbatim>\<open>main\<close> yields its return value and the calls it made; \<open>None\<close> when it does not
  return, an error when \<^verbatim>\<open>ParseShader\<close> or \<^verbatim>\<open>CreateShader\<close> left defined behaviour.
\<close>

definition main :: "driver \<Rightarrow> (error + int \<times> call list) option" where
  "main d =
     (if glfwInit_r d = 0 then Some (Inr (- 1, [GlfwInit]))
      else
        (case glfwCreateWindow_r d of
           None \<Rightarrow>
             Some (Inr (- 1, [GlfwInit, GlfwCreateWindow 640 480 ''Hello World'',
                              GlfwTerminate]))
         | Some window \<Rightarrow>
             (let startup = [GlfwInit, GlfwCreateWindow 640 480 ''Hello World'']
                            @ make_context d window @ upload_geometry d
              in case ParseShader (files d) ''res/shaders/Basic.shader'' of
                   Inl e \<Rightarrow> Some (Inl e)
                 | Inr source \<Rightarrow>
                     (case CreateShader d (vertexSource source) (fragmentSource source) of
                        Inl e \<Rightarrow> Some (Inl e)
                      | Inr (shader, shader_calls) \<Rightarrow>
                          (case render_loop d window 0
                                  (startup @ shader_calls @ [GlUseProgram shader]) of
                             None \<Rightarrow> None
                           | Some calls \<Rightarrow>
                               Some (Inr (0, calls @ [GlDeleteProgram shader,
                                                      GlfwTerminate])))))))"

section \<open>Notions used to state the properties\<close>

text \<open>All the lines the loop of \<^verbatim>\<open>ParseShader\<close> gets from a stream, in order.\<close>

function getlines :: "string \<Rightarrow> string list" where
  "getlines stream =
     (case getline stream of None \<Rightarrow> [] | Some (line, rest) \<Rightarrow> line # getlines rest)"
  by pat_completeness auto
termination
proof (relation "measure length")
  show "wf (measure (length :: string \<Rightarrow> nat))" by simp
next
  fix stream :: string and p line rest
  assume "getline stream = Some p" and "(line, rest) = p"
  then obtain c cs where "stream = c # cs"
    and "rest = drop 1 (dropWhile (\<lambda>x. x \<noteq> newline) (c # cs))"
    by (cases stream) auto
  moreover have "length (dropWhile (\<lambda>x. x \<noteq> newline) (c # cs)) \<le> length (c # cs)"
    by (rule length_dropWhile_le)
  ultimately show "(rest, stream) \<in> measure length" by simp
qed

text \<open>The loop body applied to a list of lines, stopping at the first error.\<close>

fun parse_lines :: "parse_state \<Rightarrow> string list \<Rightarrow> error + parse_state" where
  "parse_lines st [] = Inr st"
| "parse_lines st (line # lines) =
     (case parse_line st line of Inl e \<Rightarrow> Inl e | Inr st' \<Rightarrow> parse_lines st' lines)"

text \<open>The lines of a section, each followed by a line terminator.\<close>

definition body_text :: "string list \<Rightarrow> string" where
  "body_text lines = concat (map (\<lambda>line. line @ [newline]) lines)"

text \<open>
  A marker line carries the marker token and a stage keyword. A line with the token and
  both keywords counts as a vertex marker only.
\<close>

definition vertex_marker :: "string \<Rightarrow> bool" where
  "vertex_marker line \<longleftrightarrow> sublist ''#shader'' line \<and> sublist ''vertex'' line"

definition fragment_marker :: "string \<Rightarrow> bool" where
  "fragment_marker line \<longleftrightarrow>
     sublist ''#shader'' line \<and> sublist ''fragment'' line \<and> \<not> sublist ''vertex'' line"

text \<open>Two small shader files: fragment section first, and no marker line at all.\<close>

definition fragment_first_file :: string where
  "fragment_first_file =
     ''#shader fragment\<newline>f1\<newline>\<newline>#shader vertex\<newline>v1\<newline>v2''"

definition unmarked_file :: string where
  "unmarked_file = ''void main(){}\<newline>''"

text \<open>
  The calls of \<^verbatim>\<open>main\<close> before the render loop, once the window exists, the shader file
  has been read and \<^verbatim>\<open>CreateShader\<close> has returned.
\<close>

definition setup_calls :: "driver \<Rightarrow> window \<Rightarrow> ShaderProgramSource \<Rightarrow> call list" where
  "setup_calls d window source =
     (case CreateShader d (vertexSource source) (fragmentSource source) of
        Inl e \<Rightarrow> []
      | Inr (shader, shader_calls) \<Rightarrow>
          [GlfwInit, GlfwCreateWindow 640 480 ''Hello World'']
          @ make_context d window @ upload_geometry d
          @ shader_calls @ [GlUseProgram shader])"

text \<open>The \<open>n\<close>-th test of the loop condition is the first to report a close request.\<close>

definition closes_at :: "driver \<Rightarrow> nat \<Rightarrow> bool" where
  "closes_at d n \<longleftrightarrow>
     (\<forall>i<n. glfwWindowShouldClose_r d i = 0) \<and> glfwWindowShouldClose_r d n \<noteq> 0"

text \<open>The value \<^verbatim>\<open>main\<close> returns, if it returns.\<close>

fun return_value :: "(error + int \<times> call list) option \<Rightarrow> int option" where
  "return_value (Some (Inr (code, calls))) = Some code"
| "return_value (Some (Inl e)) = None"
| "return_value None = None"

definition is_GlBufferData :: "call \<Rightarrow> bool" where
  "is_GlBufferData c = (case c of GlBufferData target bytes data usage \<Rightarrow> True | _ \<Rightarrow> False)"

definition is_GlDrawElements :: "call \<Rightarrow> bool" where
  "is_GlDrawElements c = (case c of GlDrawElements mode count ty offset \<Rightarrow> True | _ \<Rightarrow> False)"

definition is_GlDeleteProgram :: "call \<Rightarrow> bool" where
  "is_GlDeleteProgram c = (case c of GlDeleteProgram program \<Rightarrow> True | _ \<Rightarrow> False)"

text \<open>The calls \<^verbatim>\<open>main\<close> made, if it returns.\<close>

fun calls_of :: "(error + int \<times> call list) option \<Rightarrow> call list" where
  "calls_of (Some (Inr (code, calls))) = calls"
| "calls_of (Some (Inl e)) = []"
| "calls_of None = []"

text \<open>
  A driver for concrete runs: the shader file has both sections, the window exists, GLEW
  answers \<open>glew\<close>, the vertex stage compiles with status \<open>vertex_status\<close>, the fragment
  stage compiles, and the close request comes at test \<open>n\<close>.
\<close>

definition example_shader_file :: string where
  "example_shader_file =
     ''#shader vertex\<newline>void main(){}\<newline>#shader fragment\<newline>void main(){}\<newline>''"

definition example_driver :: "int \<Rightarrow> int \<Rightarrow> nat \<Rightarrow> driver" where
  "example_driver glew vertex_status n =
     \<lparr>files = [''res/shaders/Basic.shader'' \<mapsto> example_shader_file],
      glfwInit_r = 1,
      glfwCreateWindow_r = Some 1,
      glewInit_r = glew,
      glGetString_r = ''3.3.0'',
      glGenBuffers_r = (\<lambda>k. if k = 0 then 1 else 2),
      glCreateProgram_r = 3,
      glCreateShader_r = (\<lambda>ty. if ty = GL_VERTEX_SHADER then 1 else 2),
      glGetShaderiv_COMPILE_STATUS_r =
        (\<lambda>ty source. if ty = GL_VERTEX_SHADER then vertex_status else 1),
      glGetShaderiv_INFO_LOG_LENGTH_r = (\<lambda>ty source. 13),
      glGetShaderInfoLog_r = (\<lambda>ty source. ''syntax error''),
      glfwWindowShouldClose_r = (\<lambda>k. if k < n then 0 else 1)\<rparr>"

text \<open>
  Two more drivers: one whose \<^verbatim>\<open>glCreateShader\<close> returns the name zero while every
  compilation succeeds, and one that reports a failed vertex compilation with an
  information log of length zero.
\<close>

definition zero_handle_driver :: driver where
  "zero_handle_driver = (example_driver 0 1 0)\<lparr>glCreateShader_r := \<lambda>ty. 0\<rparr>"

definition empty_log_driver :: driver where
  "empty_log_driver =
     (example_driver 0 0 0)\<lparr>glGetShaderiv_INFO_LOG_LENGTH_r := \<lambda>ty source. 0\<rparr>"

section \<open>Properties of the shader source loader\<close>

declare parse_loop.simps [simp del] getlines.simps [simp del]

lemma str_find_sublist: "str_find s pat \<noteq> None \<longleftrightarrow> sublist pat s"
  by (induction s) (auto simp: sublist_Cons_right)

lemma str_find_None_sublist: "str_find s pat = None \<longleftrightarrow> \<not> sublist pat s"
  using str_find_sublist [of s pat] by blast

lemma getlines_Nil: "getlines [] = []"
  by (simp add: getlines.simps [of "[]"])

lemma getlines_Cons:
  "getlines (c # cs) =
   takeWhile (\<lambda>x. x \<noteq> newline) (c # cs)
   # getlines (drop 1 (dropWhile (\<lambda>x. x \<noteq> newline) (c # cs)))"
  by (simp add: getlines.simps [of "c # cs"])

text \<open>Reading back lines that were written each with its terminator gives the lines.\<close>

lemma getlines_terminated_line:
  assumes "newline \<notin> set line"
  shows "getlines (line @ newline # rest) = line # getlines rest"
proof -
  from assms have take: "takeWhile (\<lambda>x. x \<noteq> newline) (line @ newline # rest) = line"
    by (induction line) auto
  from assms have drop: "dropWhile (\<lambda>x. x \<noteq> newline) (line @ newline # rest) = newline # rest"
    by (induction line) auto
  obtain c cs where cons: "line @ newline # rest = c # cs"
    by (cases "line @ newline # rest") auto
  show ?thesis
    using getlines_Cons [of c cs] take drop by (simp add: cons [symmetric])
qed

lemma getlines_body_text:
  "\<forall>line \<in> set lines. newline \<notin> set line \<Longrightarrow> getlines (body_text lines) = lines"
proof (induction lines)
  case Nil
  then show ?case by (simp add: body_text_def getlines_Nil)
next
  case (Cons line lines)
  then have "getlines (line @ newline # body_text lines) = line # lines"
    by (simp add: getlines_terminated_line)
  then show ?case by (simp add: body_text_def)
qed

text \<open>The loop of \<^verbatim>\<open>ParseShader\<close> is the loop body run over the lines of the stream.\<close>

lemma parse_loop_lines: "parse_loop st stream = parse_lines st (getlines stream)"
proof (induction st stream rule: parse_loop.induct)
  case (1 st stream)
  show ?case
  proof (cases "getline stream")
    case None
    then show ?thesis
      by (simp add: parse_loop.simps [of st stream] getlines.simps [of stream])
  next
    case (Some p)
    obtain line rest where p: "p = (line, rest)" by (cases p)
    have lines: "getlines stream = line # getlines rest"
      by (subst getlines.simps) (simp add: Some p)
    show ?thesis
    proof (cases "parse_line st line")
      case (Inl e)
      have "parse_loop st stream = Inl e"
        by (subst parse_loop.simps) (simp add: Some p Inl)
      then show ?thesis by (simp add: lines Inl)
    next
      case (Inr st')
      have "parse_loop st stream = parse_loop st' rest"
        by (subst parse_loop.simps) (simp add: Some p Inr)
      also have "\<dots> = parse_lines st' (getlines rest)"
        using Some p Inr by (intro "1.IH") simp_all
      finally show ?thesis by (simp add: lines Inr)
    qed
  qed
qed

lemma parse_line_vertex_marker:
  "vertex_marker line \<Longrightarrow> parse_line st line = Inr (st\<lparr>type := VERTEX\<rparr>)"
  by (simp add: parse_line_def vertex_marker_def str_find_sublist [symmetric])

lemma parse_line_fragment_marker:
  "fragment_marker line \<Longrightarrow> parse_line st line = Inr (st\<lparr>type := FRAGMENT\<rparr>)"
  by (simp add: parse_line_def fragment_marker_def str_find_sublist [symmetric])

lemma parse_line_body_vertex:
  "\<not> sublist ''#shader'' line \<Longrightarrow>
   parse_line \<lparr>type = VERTEX, ss = [a, b]\<rparr> line =
   Inr \<lparr>type = VERTEX, ss = [a @ line @ [newline], b]\<rparr>"
  by (simp add: parse_line_def append_line_def str_find_sublist [symmetric])

lemma parse_line_body_fragment:
  "\<not> sublist ''#shader'' line \<Longrightarrow>
   parse_line \<lparr>type = FRAGMENT, ss = [a, b]\<rparr> line =
   Inr \<lparr>type = FRAGMENT, ss = [a, b @ line @ [newline]]\<rparr>"
  by (simp add: parse_line_def append_line_def str_find_sublist [symmetric])

lemma parse_line_body_none:
  "\<not> sublist ''#shader'' line \<Longrightarrow>
   parse_line \<lparr>type = NONE, ss = streams\<rparr> line = Inl (ArrayIndexOutOfBounds (- 1))"
  by (simp add: parse_line_def append_line_def str_find_sublist [symmetric])

lemma parse_lines_body_vertex:
  "\<forall>line \<in> set body. \<not> sublist ''#shader'' line \<Longrightarrow>
   parse_lines \<lparr>type = VERTEX, ss = [a, b]\<rparr> (body @ rest) =
   parse_lines \<lparr>type = VERTEX, ss = [a @ body_text body, b]\<rparr> rest"
  by (induction body arbitrary: a) (simp_all add: body_text_def parse_line_body_vertex)

lemma parse_lines_body_fragment:
  "\<forall>line \<in> set body. \<not> sublist ''#shader'' line \<Longrightarrow>
   parse_lines \<lparr>type = FRAGMENT, ss = [a, b]\<rparr> (body @ rest) =
   parse_lines \<lparr>type = FRAGMENT, ss = [a, b @ body_text body]\<rparr> rest"
  by (induction body arbitrary: b) (simp_all add: body_text_def parse_line_body_fragment)

lemma parse_lines_vertex_first:
  assumes "vertex_marker mv" "fragment_marker mf"
    and "\<forall>line \<in> set bv. \<not> sublist ''#shader'' line"
    and "\<forall>line \<in> set bf. \<not> sublist ''#shader'' line"
  shows "parse_lines \<lparr>type = NONE, ss = ['''', '''']\<rparr> (mv # bv @ mf # bf) =
         Inr \<lparr>type = FRAGMENT, ss = [body_text bv, body_text bf]\<rparr>"
  using assms parse_lines_body_fragment [of bf "body_text bv" "''''" "[]"]
  by (simp add: parse_line_vertex_marker parse_line_fragment_marker parse_lines_body_vertex)

lemma parse_lines_fragment_first:
  assumes "vertex_marker mv" "fragment_marker mf"
    and "\<forall>line \<in> set bv. \<not> sublist ''#shader'' line"
    and "\<forall>line \<in> set bf. \<not> sublist ''#shader'' line"
  shows "parse_lines \<lparr>type = NONE, ss = ['''', '''']\<rparr> (mf # bf @ mv # bv) =
         Inr \<lparr>type = VERTEX, ss = [body_text bv, body_text bf]\<rparr>"
  using assms parse_lines_body_vertex [of bv "''''" "body_text bf" "[]"]
  by (simp add: parse_line_vertex_marker parse_line_fragment_marker parse_lines_body_fragment)

text \<open>
  C1. A file whose lines are a vertex marker followed by body lines and a fragment marker
  followed by body lines, the two sections in either order, is split into exactly the
  two bodies: every body line followed by a line terminator, no marker line, the vertex
  body in \<open>vertexSource\<close> and the fragment body in \<open>fragmentSource\<close> whichever section
  comes first. A body line is any line without the marker token.
\<close>

theorem ParseShader_two_sections:
  assumes "vertex_marker mv" and "fragment_marker mf"
    and "\<forall>line \<in> set bv. \<not> sublist ''#shader'' line"
    and "\<forall>line \<in> set bf. \<not> sublist ''#shader'' line"
    and "getlines (ifstream fs filepath) = mv # bv @ mf # bf
         \<or> getlines (ifstream fs filepath) = mf # bf @ mv # bv"
  shows "ParseShader fs filepath =
         Inr \<lparr>vertexSource = body_text bv, fragmentSource = body_text bf\<rparr>"
  using assms(5)
proof
  assume "getlines (ifstream fs filepath) = mv # bv @ mf # bf"
  then show ?thesis
    using parse_lines_vertex_first [OF assms(1-4)]
    by (simp add: ParseShader_def parse_loop_lines)
next
  assume "getlines (ifstream fs filepath) = mf # bf @ mv # bv"
  then show ?thesis
    using parse_lines_fragment_first [OF assms(1-4)]
    by (simp add: ParseShader_def parse_loop_lines)
qed

theorem ParseShader_two_sections_witness:
  "vertex_marker ''#shader vertex'' \<and> fragment_marker ''#shader fragment''
   \<and> \<not> sublist ''#shader'' ''v1'' \<and> \<not> sublist ''#shader'' ''v2''
   \<and> \<not> sublist ''#shader'' ''f1'' \<and> \<not> sublist ''#shader'' ''''
   \<and> getlines (ifstream [''Basic.shader'' \<mapsto> fragment_first_file] ''Basic.shader'') =
       ''#shader fragment'' # [''f1'', ''''] @ ''#shader vertex'' # [''v1'', ''v2'']
   \<and> ParseShader [''Basic.shader'' \<mapsto> fragment_first_file] ''Basic.shader'' =
       Inr \<lparr>vertexSource = ''v1\<newline>v2\<newline>'', fragmentSource = ''f1\<newline>\<newline>''\<rparr>"
proof -
  have mv: "vertex_marker ''#shader vertex''"
    by (simp add: vertex_marker_def str_find_sublist [symmetric])
  have mf: "fragment_marker ''#shader fragment''"
    by (simp add: fragment_marker_def str_find_sublist [symmetric]
        str_find_None_sublist [symmetric])
  have bv: "\<forall>line \<in> set [''v1'', ''v2'']. \<not> sublist ''#shader'' line"
    by (simp add: str_find_None_sublist [symmetric])
  have bf: "\<forall>line \<in> set [''f1'', '''']. \<not> sublist ''#shader'' line"
    by (simp add: str_find_None_sublist [symmetric])
  have lines: "getlines (ifstream [''Basic.shader'' \<mapsto> fragment_first_file] ''Basic.shader'') =
      ''#shader fragment'' # [''f1'', ''''] @ ''#shader vertex'' # [''v1'', ''v2'']"
    by (simp add: ifstream_def fragment_first_file_def newline_def getlines_Nil getlines_Cons)
  have "ParseShader [''Basic.shader'' \<mapsto> fragment_first_file] ''Basic.shader'' =
      Inr \<lparr>vertexSource = body_text [''v1'', ''v2''], fragmentSource = body_text [''f1'', '''']\<rparr>"
    using ParseShader_two_sections [OF mv mf bv bf disjI2 [OF lines]] .
  then have "ParseShader [''Basic.shader'' \<mapsto> fragment_first_file] ''Basic.shader'' =
      Inr \<lparr>vertexSource = ''v1\<newline>v2\<newline>'', fragmentSource = ''f1\<newline>\<newline>''\<rparr>"
    by (simp add: body_text_def newline_def)
  with mv mf bv bf lines show ?thesis by simp
qed

text \<open>
  C2, at a file without any marker line: the first line is met while the target is still
  \<open>NONE\<close>, whose value \<open>-1\<close> is used as the index into the two-element stream array. The
  line is not dropped; the run leaves defined behaviour and no pair of blocks results.
\<close>

theorem ParseShader_unmarked_line_out_of_bounds:
  "ParseShader [''Basic.shader'' \<mapsto> unmarked_file] ''Basic.shader'' =
   Inl (ArrayIndexOutOfBounds (- 1))"
  by (simp add: ParseShader_def ifstream_def unmarked_file_def parse_loop_lines
      getlines_Nil getlines_Cons newline_def parse_line_def append_line_def)

text \<open>What does hold of C2: a stream without any line gives two empty blocks.\<close>

lemma ParseShader_no_lines:
  "getlines (ifstream fs filepath) = [] \<Longrightarrow>
   ParseShader fs filepath = Inr \<lparr>vertexSource = '''', fragmentSource = ''''\<rparr>"
  by (simp add: ParseShader_def parse_loop_lines)

text \<open>
  C8. A line with the marker token and both stage keywords selects the vertex stage:
  after the line the current target is \<open>VERTEX\<close>, and the streams are as before.
\<close>

theorem parse_line_both_keywords_vertex:
  assumes "sublist ''#shader'' line" and "sublist ''vertex'' line"
    and "sublist ''fragment'' line"
  shows "parse_line st line = Inr (st\<lparr>type := VERTEX\<rparr>)"
  using assms by (simp add: parse_line_def str_find_sublist [symmetric])

theorem parse_line_both_keywords_vertex_witness:
  "sublist ''#shader'' ''#shader fragment vertex''
   \<and> sublist ''vertex'' ''#shader fragment vertex''
   \<and> sublist ''fragment'' ''#shader fragment vertex''
   \<and> parse_line \<lparr>type = FRAGMENT, ss = [''a'', ''b'']\<rparr> ''#shader fragment vertex'' =
       Inr \<lparr>type = VERTEX, ss = [''a'', ''b'']\<rparr>"
proof -
  have h1: "sublist ''#shader'' ''#shader fragment vertex''"
    by (simp add: str_find_sublist [symmetric])
  have h2: "sublist ''vertex'' ''#shader fragment vertex''"
    by (simp add: str_find_sublist [symmetric])
  have h3: "sublist ''fragment'' ''#shader fragment vertex''"
    by (simp add: str_find_sublist [symmetric])
  show ?thesis
    using h1 h2 h3
      parse_line_both_keywords_vertex [OF h1 h2 h3, of "\<lparr>type = FRAGMENT, ss = [''a'', ''b'']\<rparr>"]
    by simp
qed

text \<open>
  C10. A line with the marker token but neither stage keyword changes nothing: the
  current target stays as it is and the line goes to neither stream.
\<close>

theorem parse_line_marker_without_stage:
  assumes "sublist ''#shader'' line" and "\<not> sublist ''vertex'' line"
    and "\<not> sublist ''fragment'' line"
  shows "parse_line st line = Inr st"
  using assms by (simp add: parse_line_def str_find_sublist [symmetric])

theorem parse_line_marker_without_stage_witness:
  "sublist ''#shader'' ''#shader geometry''
   \<and> \<not> sublist ''vertex'' ''#shader geometry''
   \<and> \<not> sublist ''fragment'' ''#shader geometry''
   \<and> parse_line \<lparr>type = VERTEX, ss = [''a'', ''b'']\<rparr> ''#shader geometry'' =
       Inr \<lparr>type = VERTEX, ss = [''a'', ''b'']\<rparr>"
proof -
  have h1: "sublist ''#shader'' ''#shader geometry''"
    by (simp add: str_find_sublist [symmetric])
  have h2: "\<not> sublist ''vertex'' ''#shader geometry''"
    by (simp add: str_find_None_sublist [symmetric])
  have h3: "\<not> sublist ''fragment'' ''#shader geometry''"
    by (simp add: str_find_None_sublist [symmetric])
  show ?thesis
    using h1 h2 h3
      parse_line_marker_without_stage [OF h1 h2 h3, of "\<lparr>type = VERTEX, ss = [''a'', ''b'']\<rparr>"]
    by simp
qed

section \<open>Properties of the render loop and of main\<close>

lemma render_loop_closes:
  "(\<forall>i<n. glfwWindowShouldClose_r d (k + i) = 0) \<Longrightarrow>
   glfwWindowShouldClose_r d (k + n) \<noteq> 0 \<Longrightarrow>
   render_loop d w k calls =
   Some (calls @ concat (replicate n (GlfwWindowShouldClose w # frame w))
         @ [GlfwWindowShouldClose w])"
proof (induction n arbitrary: k calls)
  case 0
  then show ?case by (subst render_loop.simps) simp
next
  case (Suc n)
  from Suc.prems(1) have now: "glfwWindowShouldClose_r d k = 0" by force
  have later: "\<forall>i<n. glfwWindowShouldClose_r d (Suc k + i) = 0"
  proof (intro allI impI)
    fix i assume "i < n"
    then have "Suc i < Suc n" by simp
    with Suc.prems(1) have "glfwWindowShouldClose_r d (k + Suc i) = 0" by blast
    then show "glfwWindowShouldClose_r d (Suc k + i) = 0" by simp
  qed
  from Suc.prems(2) have last: "glfwWindowShouldClose_r d (Suc k + n) \<noteq> 0" by simp
  have "render_loop d w k calls =
        render_loop d w (Suc k) (calls @ GlfwWindowShouldClose w # frame w)"
    by (subst render_loop.simps) (simp add: now)
  also have "\<dots> = Some ((calls @ GlfwWindowShouldClose w # frame w)
        @ concat (replicate n (GlfwWindowShouldClose w # frame w))
        @ [GlfwWindowShouldClose w])"
    by (rule Suc.IH [OF later last])
  finally show ?case by simp
qed

lemma render_loop_returns_close:
  assumes "render_loop d w k calls = Some r"
  shows "\<exists>n. glfwWindowShouldClose_r d (k + n) \<noteq> 0"
proof (rule render_loop.raw_induct
    [where P = "\<lambda>d w k calls r. \<exists>n. glfwWindowShouldClose_r d (k + n) \<noteq> 0", OF _ assms])
  fix approx :: "driver \<Rightarrow> window \<Rightarrow> nat \<Rightarrow> call list \<Rightarrow> call list option"
    and d w k calls r
  assume IH: "\<And>d w k calls r. approx d w k calls = Some r \<Longrightarrow>
      \<exists>n. glfwWindowShouldClose_r d (k + n) \<noteq> 0"
    and eq: "(if glfwWindowShouldClose_r d k = 0
        then approx d w (Suc k) (calls @ GlfwWindowShouldClose w # frame w)
        else Some (calls @ [GlfwWindowShouldClose w])) = Some r"
  show "\<exists>n. glfwWindowShouldClose_r d (k + n) \<noteq> 0"
  proof (cases "glfwWindowShouldClose_r d k = 0")
    case True
    with eq have "approx d w (Suc k) (calls @ GlfwWindowShouldClose w # frame w) = Some r"
      by simp
    from IH [OF this] obtain n where "glfwWindowShouldClose_r d (Suc k + n) \<noteq> 0" by blast
    then have "glfwWindowShouldClose_r d (k + Suc n) \<noteq> 0" by simp
    then show ?thesis by blast
  next
    case False
    then have "glfwWindowShouldClose_r d (k + 0) \<noteq> 0" by simp
    then show ?thesis by blast
  qed
qed

lemma render_loop_Some_iff:
  "(\<exists>r. render_loop d w 0 calls = Some r) \<longleftrightarrow> (\<exists>n. glfwWindowShouldClose_r d n \<noteq> 0)"
proof
  assume "\<exists>r. render_loop d w 0 calls = Some r"
  then show "\<exists>n. glfwWindowShouldClose_r d n \<noteq> 0"
    using render_loop_returns_close [of d w 0 calls] by auto
next
  assume ex: "\<exists>n. glfwWindowShouldClose_r d n \<noteq> 0"
  define n where "n = (LEAST n. glfwWindowShouldClose_r d n \<noteq> 0)"
  from ex have "glfwWindowShouldClose_r d n \<noteq> 0"
    unfolding n_def by (rule LeastI_ex)
  then have last: "glfwWindowShouldClose_r d (0 + n) \<noteq> 0" by simp
  have "glfwWindowShouldClose_r d i = 0" if "i < n" for i
    using that not_less_Least [of i "\<lambda>n. glfwWindowShouldClose_r d n \<noteq> 0"]
    unfolding n_def by blast
  then have before: "\<forall>i<n. glfwWindowShouldClose_r d (0 + i) = 0" by simp
  show "\<exists>r. render_loop d w 0 calls = Some r"
    using render_loop_closes [OF before last] by blast
qed

lemma render_loop_never:
  "(\<forall>n. glfwWindowShouldClose_r d n = 0) \<Longrightarrow> render_loop d w 0 calls = None"
  using render_loop_Some_iff [of d w calls] by (cases "render_loop d w 0 calls") auto

lemma CreateShader_Inr:
  assumes "CompileShader d GL_VERTEX_SHADER v = Inr (vs, vs_calls)"
    and "CompileShader d GL_FRAGMENT_SHADER f = Inr (fs, fs_calls)"
  shows "CreateShader d v f =
         Inr (glCreateProgram_r d,
              GlCreateProgram # vs_calls @ fs_calls
              @ [GlAttachShader (glCreateProgram_r d) vs, GlAttachShader (glCreateProgram_r d) fs,
                 GlLinkProgram (glCreateProgram_r d), GlValidateProgram (glCreateProgram_r d),
                 GlDeleteShader vs, GlDeleteShader fs])"
  using assms by (simp add: CreateShader_def Let_def)

lemma CreateShader_InrD:
  assumes "CreateShader d v f = Inr (shader, shader_calls)"
  shows "\<exists>vs vs_calls fs fs_calls.
           CompileShader d GL_VERTEX_SHADER v = Inr (vs, vs_calls)
           \<and> CompileShader d GL_FRAGMENT_SHADER f = Inr (fs, fs_calls)
           \<and> shader = glCreateProgram_r d
           \<and> shader_calls =
               GlCreateProgram # vs_calls @ fs_calls
               @ [GlAttachShader shader vs, GlAttachShader shader fs,
                  GlLinkProgram shader, GlValidateProgram shader,
                  GlDeleteShader vs, GlDeleteShader fs]"
  using assms by (auto simp: CreateShader_def Let_def split: sum.splits)

lemma CreateShader_program:
  "CreateShader d v f = Inr (shader, shader_calls) \<Longrightarrow> shader = glCreateProgram_r d"
  by (auto dest: CreateShader_InrD)

lemma CreateShader_glewInit:
  "CreateShader (d\<lparr>glewInit_r := glew\<rparr>) v f = CreateShader d v f"
  by (simp add: CreateShader_def CompileShader_def Let_def)


lemma CompileShader_calls_plain:
  assumes "CompileShader d ty source = Inr (h, calls)"
  shows "filter is_GlDeleteProgram calls = []" and "filter is_GlDrawElements calls = []"
    and "filter is_GlBufferData calls = []"
  using assms
  by (auto simp: CompileShader_def Let_def is_GlDeleteProgram_def is_GlDrawElements_def
      is_GlBufferData_def split: if_splits)

lemma CreateShader_calls_plain:
  assumes "CreateShader d v f = Inr (shader, shader_calls)"
  shows "filter is_GlDeleteProgram shader_calls = []"
    and "filter is_GlDrawElements shader_calls = []"
    and "filter is_GlBufferData shader_calls = []"
proof -
  from CreateShader_InrD [OF assms] obtain vs vs_calls fs fs_calls
    where v: "CompileShader d GL_VERTEX_SHADER v = Inr (vs, vs_calls)"
      and f: "CompileShader d GL_FRAGMENT_SHADER f = Inr (fs, fs_calls)"
      and calls: "shader_calls =
        GlCreateProgram # vs_calls @ fs_calls
        @ [GlAttachShader shader vs, GlAttachShader shader fs,
           GlLinkProgram shader, GlValidateProgram shader,
           GlDeleteShader vs, GlDeleteShader fs]"
    by blast
  show "filter is_GlDeleteProgram shader_calls = []"
    by (simp add: calls CompileShader_calls_plain [OF v] CompileShader_calls_plain [OF f]
        is_GlDeleteProgram_def)
  show "filter is_GlDrawElements shader_calls = []"
    by (simp add: calls CompileShader_calls_plain [OF v] CompileShader_calls_plain [OF f]
        is_GlDrawElements_def)
  show "filter is_GlBufferData shader_calls = []"
    by (simp add: calls CompileShader_calls_plain [OF v] CompileShader_calls_plain [OF f]
        is_GlBufferData_def)
qed

lemma setup_calls_created:
  "CreateShader d (vertexSource source) (fragmentSource source) = Inr (shader, shader_calls) \<Longrightarrow>
   setup_calls d w source =
     ([GlfwInit, GlfwCreateWindow 640 480 ''Hello World'']
      @ make_context d w @ upload_geometry d)
     @ shader_calls @ [GlUseProgram shader]"
  by (simp add: setup_calls_def)

lemma main_running:
  assumes "glfwInit_r d \<noteq> 0" and "glfwCreateWindow_r d = Some w"
    and "ParseShader (files d) ''res/shaders/Basic.shader'' = Inr source"
    and "CreateShader d (vertexSource source) (fragmentSource source) = Inr (shader, shader_calls)"
  shows "main d =
         map_option
           (\<lambda>calls. Inr (0, calls @ [GlDeleteProgram shader, GlfwTerminate]))
           (render_loop d w 0 (setup_calls d w source))"
  using assms
  by (simp add: main_def setup_calls_def Let_def split: option.split)

lemma main_closes:
  assumes "glfwInit_r d \<noteq> 0" and "glfwCreateWindow_r d = Some w"
    and "ParseShader (files d) ''res/shaders/Basic.shader'' = Inr source"
    and "CreateShader d (vertexSource source) (fragmentSource source) = Inr (shader, shader_calls)"
    and "closes_at d n"
  shows "main d =
         Some (Inr (0, setup_calls d w source
           @ concat (replicate n (GlfwWindowShouldClose w # frame w))
           @ [GlfwWindowShouldClose w, GlDeleteProgram shader, GlfwTerminate]))"
proof -
  from assms(5) have "\<forall>i<n. glfwWindowShouldClose_r d (0 + i) = 0"
    and "glfwWindowShouldClose_r d (0 + n) \<noteq> 0"
    by (simp_all add: closes_at_def)
  then have "render_loop d w 0 (setup_calls d w source) =
      Some (setup_calls d w source @ concat (replicate n (GlfwWindowShouldClose w # frame w))
            @ [GlfwWindowShouldClose w])"
    by (rule render_loop_closes)
  then show ?thesis by (simp add: main_running [OF assms(1-4)])
qed

lemma example_parse:
  "ParseShader (files (example_driver g s n)) ''res/shaders/Basic.shader'' =
   Inr \<lparr>vertexSource = ''void main(){}\<newline>'', fragmentSource = ''void main(){}\<newline>''\<rparr>"
  by (simp add: example_driver_def ParseShader_def ifstream_def example_shader_file_def
      parse_loop_lines getlines_Nil getlines_Cons newline_def parse_line_def append_line_def)

lemma example_closes: "closes_at (example_driver g s n) n"
  by (simp add: closes_at_def example_driver_def)

lemma example_compile_fragment:
  "CompileShader (example_driver g s n) GL_FRAGMENT_SHADER ''void main(){}\<newline>'' =
   Inr (2, [GlCreateShader GL_FRAGMENT_SHADER, GlShaderSource 2 ''void main(){}\<newline>'',
            GlCompileShader 2, GlGetShaderiv 2 GL_COMPILE_STATUS])"
  by (simp add: CompileShader_def example_driver_def GL_FALSE_def c_str_def NUL_def)

lemma example_compile_vertex:
  "CompileShader (example_driver g 1 n) GL_VERTEX_SHADER ''void main(){}\<newline>'' =
   Inr (1, [GlCreateShader GL_VERTEX_SHADER, GlShaderSource 1 ''void main(){}\<newline>'',
            GlCompileShader 1, GlGetShaderiv 1 GL_COMPILE_STATUS])"
  by (simp add: CompileShader_def example_driver_def GL_FALSE_def c_str_def NUL_def)

lemma example_compile_vertex_failing:
  "CompileShader (example_driver g 0 n) GL_VERTEX_SHADER ''void main(){}\<newline>'' =
   Inr (0, [GlCreateShader GL_VERTEX_SHADER, GlShaderSource 1 ''void main(){}\<newline>'',
            GlCompileShader 1, GlGetShaderiv 1 GL_COMPILE_STATUS,
            GlGetShaderiv 1 GL_INFO_LOG_LENGTH, Alloca 13, GlGetShaderInfoLog 1 13,
            Print ''Failed to compile vertex shader!'', Print ''syntax error'',
            GlDeleteShader 1])"
  by (simp add: CompileShader_def example_driver_def GL_FALSE_def c_str_def NUL_def
      sizeof_char_def)

lemma example_create:
  "CreateShader (example_driver g 1 n) ''void main(){}\<newline>'' ''void main(){}\<newline>'' =
   Inr (3, [GlCreateProgram,
            GlCreateShader GL_VERTEX_SHADER, GlShaderSource 1 ''void main(){}\<newline>'',
            GlCompileShader 1, GlGetShaderiv 1 GL_COMPILE_STATUS,
            GlCreateShader GL_FRAGMENT_SHADER, GlShaderSource 2 ''void main(){}\<newline>'',
            GlCompileShader 2, GlGetShaderiv 2 GL_COMPILE_STATUS,
            GlAttachShader 3 1, GlAttachShader 3 2, GlLinkProgram 3, GlValidateProgram 3,
            GlDeleteShader 1, GlDeleteShader 2])"
proof -
  have "glCreateProgram_r (example_driver g 1 n) = 3"
    by (simp add: example_driver_def)
  with CreateShader_Inr [OF example_compile_vertex [of g n] example_compile_fragment [of g 1 n]]
  show ?thesis by simp
qed

lemma example_create_failing:
  "CreateShader (example_driver g 0 n) ''void main(){}\<newline>'' ''void main(){}\<newline>'' =
   Inr (3, [GlCreateProgram,
            GlCreateShader GL_VERTEX_SHADER, GlShaderSource 1 ''void main(){}\<newline>'',
            GlCompileShader 1, GlGetShaderiv 1 GL_COMPILE_STATUS,
            GlGetShaderiv 1 GL_INFO_LOG_LENGTH, Alloca 13, GlGetShaderInfoLog 1 13,
            Print ''Failed to compile vertex shader!'', Print ''syntax error'',
            GlDeleteShader 1,
            GlCreateShader GL_FRAGMENT_SHADER, GlShaderSource 2 ''void main(){}\<newline>'',
            GlCompileShader 2, GlGetShaderiv 2 GL_COMPILE_STATUS,
            GlAttachShader 3 0, GlAttachShader 3 2, GlLinkProgram 3, GlValidateProgram 3,
            GlDeleteShader 0, GlDeleteShader 2])"
proof -
  have "glCreateProgram_r (example_driver g 0 n) = 3"
    by (simp add: example_driver_def)
  with CreateShader_Inr [OF example_compile_vertex_failing [of g n] example_compile_fragment [of g 0 n]]
  show ?thesis by simp
qed

subsection \<open>Compiling and linking\<close>

text \<open>
  C5, as stated, fails twice. When \<^verbatim>\<open>glCreateShader\<close> returns the name zero and the driver
  reports a successful compilation, \<^verbatim>\<open>CompileShader\<close> returns zero although no compile
  failure was reported, and prints nothing. When the driver reports a compile failure
  and a log length of zero, no log text is reported: the message buffer has no byte,
  the driver stores nothing, and printing the message reads what was never written.
\<close>

theorem CompileShader_zero_without_compile_failure:
  "glGetShaderiv_COMPILE_STATUS_r zero_handle_driver GL_VERTEX_SHADER (c_str ''void main(){}'')
     \<noteq> GL_FALSE
   \<and> CompileShader zero_handle_driver GL_VERTEX_SHADER ''void main(){}'' =
       Inr (0, [GlCreateShader GL_VERTEX_SHADER, GlShaderSource 0 ''void main(){}'',
                GlCompileShader 0, GlGetShaderiv 0 GL_COMPILE_STATUS])
   \<and> glGetShaderiv_COMPILE_STATUS_r empty_log_driver GL_VERTEX_SHADER (c_str ''void main({}'')
       = GL_FALSE
   \<and> CompileShader empty_log_driver GL_VERTEX_SHADER ''void main({}'' = Inl UninitialisedRead"
  by (simp add: CompileShader_def zero_handle_driver_def empty_log_driver_def example_driver_def
      GL_FALSE_def c_str_def NUL_def)

text \<open>
  C5, amended. Whenever \<^verbatim>\<open>CompileShader\<close> returns, it returns zero exactly when the driver
  reported the compile status \<open>GL_FALSE\<close> or \<^verbatim>\<open>glCreateShader\<close> had returned the name zero.
  When the driver reports \<open>GL_FALSE\<close> and a positive log length, \<^verbatim>\<open>CompileShader\<close> asks for
  the log length, then allocates the buffer, fetches the log, prints the stage name and
  the log text that fits the buffer, deletes the stage object and returns zero. When the
  driver reports another status, it returns the handle it got from \<^verbatim>\<open>glCreateShader\<close>,
  having printed and deleted nothing.
\<close>

theorem CompileShader_zero_iff_failure_or_zero_handle:
  "(CompileShader d ty source = Inr (h, calls) \<longrightarrow>
      (h = 0 \<longleftrightarrow>
         glGetShaderiv_COMPILE_STATUS_r d ty (c_str source) = GL_FALSE
         \<or> glCreateShader_r d ty = 0))
   \<and> (glGetShaderiv_COMPILE_STATUS_r d ty (c_str source) = GL_FALSE
        \<and> 0 < glGetShaderiv_INFO_LOG_LENGTH_r d ty (c_str source) \<longrightarrow>
        CompileShader d ty source =
          Inr (0, [GlCreateShader ty,
                   GlShaderSource (glCreateShader_r d ty) (c_str source),
                   GlCompileShader (glCreateShader_r d ty),
                   GlGetShaderiv (glCreateShader_r d ty) GL_COMPILE_STATUS,
                   GlGetShaderiv (glCreateShader_r d ty) GL_INFO_LOG_LENGTH,
                   Alloca (word_of_int (glGetShaderiv_INFO_LOG_LENGTH_r d ty (c_str source))
                           * sizeof_char),
                   GlGetShaderInfoLog (glCreateShader_r d ty)
                     (glGetShaderiv_INFO_LOG_LENGTH_r d ty (c_str source)),
                   Print (''Failed to compile ''
                          @ (if ty = GL_VERTEX_SHADER then ''vertex'' else ''fragment'')
                          @ '' shader!''),
                   Print (c_str (take (nat (glGetShaderiv_INFO_LOG_LENGTH_r d ty (c_str source) - 1))
                                   (glGetShaderInfoLog_r d ty (c_str source)))),
                   GlDeleteShader (glCreateShader_r d ty)]))
   \<and> (glGetShaderiv_COMPILE_STATUS_r d ty (c_str source) \<noteq> GL_FALSE \<longrightarrow>
        CompileShader d ty source =
          Inr (glCreateShader_r d ty,
               [GlCreateShader ty,
                GlShaderSource (glCreateShader_r d ty) (c_str source),
                GlCompileShader (glCreateShader_r d ty),
                GlGetShaderiv (glCreateShader_r d ty) GL_COMPILE_STATUS]))"
  by (auto simp: CompileShader_def Let_def split: if_splits)

theorem CompileShader_zero_iff_failure_or_zero_handle_witness:
  "glGetShaderiv_COMPILE_STATUS_r (example_driver 0 0 0) GL_VERTEX_SHADER (c_str ''void main({}'')
     = GL_FALSE
   \<and> 0 < glGetShaderiv_INFO_LOG_LENGTH_r (example_driver 0 0 0) GL_VERTEX_SHADER
           (c_str ''void main({}'')
   \<and> CompileShader (example_driver 0 0 0) GL_VERTEX_SHADER ''void main({}'' =
       Inr (0, [GlCreateShader GL_VERTEX_SHADER, GlShaderSource 1 ''void main({}'',
                GlCompileShader 1, GlGetShaderiv 1 GL_COMPILE_STATUS,
                GlGetShaderiv 1 GL_INFO_LOG_LENGTH, Alloca 13, GlGetShaderInfoLog 1 13,
                Print ''Failed to compile vertex shader!'', Print ''syntax error'',
                GlDeleteShader 1])
   \<and> glCreateShader_r (example_driver 0 0 0) GL_FRAGMENT_SHADER \<noteq> 0
   \<and> glGetShaderiv_COMPILE_STATUS_r (example_driver 0 0 0) GL_FRAGMENT_SHADER
         (c_str ''void main(){}'') \<noteq> GL_FALSE
   \<and> CompileShader (example_driver 0 0 0) GL_FRAGMENT_SHADER ''void main(){}'' =
       Inr (2, [GlCreateShader GL_FRAGMENT_SHADER, GlShaderSource 2 ''void main(){}'',
                GlCompileShader 2, GlGetShaderiv 2 GL_COMPILE_STATUS])
   \<and> (2 :: GLuint) \<noteq> 0
   \<and> glCreateShader_r zero_handle_driver GL_VERTEX_SHADER = 0
   \<and> glGetShaderiv_COMPILE_STATUS_r zero_handle_driver GL_VERTEX_SHADER
         (c_str ''void main(){}'') \<noteq> GL_FALSE
   \<and> CompileShader zero_handle_driver GL_VERTEX_SHADER ''void main(){}'' =
       Inr (0, [GlCreateShader GL_VERTEX_SHADER, GlShaderSource 0 ''void main(){}'',
                GlCompileShader 0, GlGetShaderiv 0 GL_COMPILE_STATUS])"
proof -
  let ?d = "example_driver 0 0 0"
  let ?failed = "[GlCreateShader GL_VERTEX_SHADER, GlShaderSource 1 ''void main({}'',
      GlCompileShader 1, GlGetShaderiv 1 GL_COMPILE_STATUS,
      GlGetShaderiv 1 GL_INFO_LOG_LENGTH, Alloca 13, GlGetShaderInfoLog 1 13,
      Print ''Failed to compile vertex shader!'', Print ''syntax error'',
      GlDeleteShader 1]"
  let ?compiled = "[GlCreateShader GL_FRAGMENT_SHADER, GlShaderSource 2 ''void main(){}'',
      GlCompileShader 2, GlGetShaderiv 2 GL_COMPILE_STATUS]"
  let ?unnamed = "[GlCreateShader GL_VERTEX_SHADER, GlShaderSource 0 ''void main(){}'',
      GlCompileShader 0, GlGetShaderiv 0 GL_COMPILE_STATUS]"
  have failing: "glGetShaderiv_COMPILE_STATUS_r ?d GL_VERTEX_SHADER (c_str ''void main({}'')
      = GL_FALSE"
    and len: "0 < glGetShaderiv_INFO_LOG_LENGTH_r ?d GL_VERTEX_SHADER (c_str ''void main({}'')"
    and handle: "glCreateShader_r ?d GL_FRAGMENT_SHADER \<noteq> 0"
    and compiling: "glGetShaderiv_COMPILE_STATUS_r ?d GL_FRAGMENT_SHADER (c_str ''void main(){}'')
      \<noteq> GL_FALSE"
    by (simp_all add: example_driver_def GL_FALSE_def)
  have no_name: "glCreateShader_r zero_handle_driver GL_VERTEX_SHADER = 0"
    and succeeding: "glGetShaderiv_COMPILE_STATUS_r zero_handle_driver GL_VERTEX_SHADER
      (c_str ''void main(){}'') \<noteq> GL_FALSE"
    by (simp_all add: zero_handle_driver_def example_driver_def GL_FALSE_def)
  have vertex: "CompileShader ?d GL_VERTEX_SHADER ''void main({}'' = Inr (0, ?failed)"
    using CompileShader_zero_iff_failure_or_zero_handle
            [of ?d GL_VERTEX_SHADER "''void main({}''" 0 ?failed] failing len
    by (simp add: example_driver_def GL_FALSE_def sizeof_char_def c_str_def NUL_def)
  have fragment: "CompileShader ?d GL_FRAGMENT_SHADER ''void main(){}'' = Inr (2, ?compiled)"
    using CompileShader_zero_iff_failure_or_zero_handle
            [of ?d GL_FRAGMENT_SHADER "''void main(){}''" 2 ?compiled] compiling
    by (simp add: example_driver_def GL_FALSE_def c_str_def NUL_def)
  with CompileShader_zero_iff_failure_or_zero_handle
         [of ?d GL_FRAGMENT_SHADER "''void main(){}''" 2 ?compiled] handle compiling
  have nonzero: "(2 :: GLuint) \<noteq> 0"
    by blast
  have unnamed: "CompileShader zero_handle_driver GL_VERTEX_SHADER ''void main(){}'' =
      Inr (0, ?unnamed)"
    using CompileShader_zero_iff_failure_or_zero_handle
            [of zero_handle_driver GL_VERTEX_SHADER "''void main(){}''" 0 ?unnamed] succeeding
    by (simp add: zero_handle_driver_def example_driver_def GL_FALSE_def c_str_def NUL_def)
  from failing len vertex handle compiling fragment nonzero no_name succeeding unnamed
  show ?thesis
    by (simp only: simp_thms)
qed



subsection \<open>The render loop\<close>

lemma setup_calls_no_delete: "filter is_GlDeleteProgram (setup_calls d w source) = []"
proof (cases "CreateShader d (vertexSource source) (fragmentSource source)")
  case (Inl e)
  then show ?thesis by (simp add: setup_calls_def)
next
  case (Inr created)
  obtain shader shader_calls where "created = (shader, shader_calls)" by (cases created)
  with Inr have created:
    "CreateShader d (vertexSource source) (fragmentSource source) = Inr (shader, shader_calls)"
    by simp
  show ?thesis
    by (simp add: setup_calls_created [OF created] CreateShader_calls_plain [OF created]
        make_context_def upload_geometry_def Let_def is_GlDeleteProgram_def)
qed

lemma frames_no_delete:
  "filter is_GlDeleteProgram (concat (replicate n (GlfwWindowShouldClose w # frame w))) = []"
  by (induction n) (simp_all add: frame_def is_GlDeleteProgram_def)

text \<open>
  C7. Once the loop is reached: if the \<open>n\<close>-th test of the condition is the first to
  report a close request, the loop has run exactly \<open>n\<close> iterations, each one clear, one
  draw call over 6 indices, swap, poll, in this order; after the reporting test no frame
  follows, only the one release of the program object and the termination of the
  windowing layer, and \<^verbatim>\<open>main\<close> returns 0. If no test ever reports a close request,
  \<^verbatim>\<open>main\<close> does not return; if it returns, some test reported one.
\<close>

theorem render_loop_running_until_close:
  assumes "glfwInit_r d \<noteq> 0" and "glfwCreateWindow_r d = Some w"
    and "ParseShader (files d) ''res/shaders/Basic.shader'' = Inr source"
    and "CreateShader d (vertexSource source) (fragmentSource source) = Inr (shader, shader_calls)"
  shows "(closes_at d n \<longrightarrow>
           main d = Some (Inr (0,
             setup_calls d w source
             @ concat (replicate n
                 [GlfwWindowShouldClose w,
                  GlClear GL_COLOR_BUFFER_BIT,
                  GlDrawElements GL_TRIANGLES 6 GL_UNSIGNED_INT 0,
                  GlfwSwapBuffers w,
                  GlfwPollEvents])
             @ [GlfwWindowShouldClose w, GlDeleteProgram (glCreateProgram_r d),
                GlfwTerminate]))
           \<and> filter is_GlDeleteProgram (calls_of (main d)) =
               [GlDeleteProgram (glCreateProgram_r d)]
           \<and> return_value (main d) = Some 0)
       \<and> ((\<forall>k. glfwWindowShouldClose_r d k = 0) \<longrightarrow> main d = None)
       \<and> (main d \<noteq> None \<longrightarrow> (\<exists>k. closes_at d k))"
proof (intro conjI impI)
  assume closes: "closes_at d n"
  have program: "shader = glCreateProgram_r d"
    using assms(4) by (rule CreateShader_program)
  show run: "main d = Some (Inr (0,
      setup_calls d w source
      @ concat (replicate n
          [GlfwWindowShouldClose w, GlClear GL_COLOR_BUFFER_BIT,
           GlDrawElements GL_TRIANGLES 6 GL_UNSIGNED_INT 0, GlfwSwapBuffers w,
           GlfwPollEvents])
      @ [GlfwWindowShouldClose w, GlDeleteProgram (glCreateProgram_r d), GlfwTerminate]))"
    using main_closes [OF assms closes] by (simp add: program frame_def)
  show "filter is_GlDeleteProgram (calls_of (main d)) = [GlDeleteProgram (glCreateProgram_r d)]"
    using main_closes [OF assms closes] setup_calls_no_delete [of d w source]
      frames_no_delete [of n w]
    by (simp add: program is_GlDeleteProgram_def)
  show "return_value (main d) = Some 0"
    by (simp add: run)
next
  assume "\<forall>k. glfwWindowShouldClose_r d k = 0"
  then have "render_loop d w 0 (setup_calls d w source) = None"
    by (rule render_loop_never)
  then show "main d = None"
    by (simp add: main_running [OF assms])
next
  assume "main d \<noteq> None"
  then have "\<exists>r. render_loop d w 0 (setup_calls d w source) = Some r"
    by (simp add: main_running [OF assms])
  then have ex: "\<exists>k. glfwWindowShouldClose_r d k \<noteq> 0"
    by (simp add: render_loop_Some_iff)
  define k where "k = (LEAST k. glfwWindowShouldClose_r d k \<noteq> 0)"
  from ex have "glfwWindowShouldClose_r d k \<noteq> 0"
    unfolding k_def by (rule LeastI_ex)
  moreover have "glfwWindowShouldClose_r d i = 0" if "i < k" for i
    using that not_less_Least [of i "\<lambda>k. glfwWindowShouldClose_r d k \<noteq> 0"]
    unfolding k_def by blast
  ultimately have "closes_at d k" by (simp add: closes_at_def)
  then show "\<exists>k. closes_at d k" ..
qed

theorem render_loop_running_until_close_witness:
  "glfwInit_r (example_driver 0 1 2) \<noteq> 0
   \<and> glfwCreateWindow_r (example_driver 0 1 2) = Some 1
   \<and> ParseShader (files (example_driver 0 1 2)) ''res/shaders/Basic.shader'' =
       Inr \<lparr>vertexSource = ''void main(){}\<newline>'', fragmentSource = ''void main(){}\<newline>''\<rparr>
   \<and> CreateShader (example_driver 0 1 2) ''void main(){}\<newline>'' ''void main(){}\<newline>'' =
       Inr (3, [GlCreateProgram,
                GlCreateShader GL_VERTEX_SHADER, GlShaderSource 1 ''void main(){}\<newline>'',
                GlCompileShader 1, GlGetShaderiv 1 GL_COMPILE_STATUS,
                GlCreateShader GL_FRAGMENT_SHADER, GlShaderSource 2 ''void main(){}\<newline>'',
                GlCompileShader 2, GlGetShaderiv 2 GL_COMPILE_STATUS,
                GlAttachShader 3 1, GlAttachShader 3 2, GlLinkProgram 3, GlValidateProgram 3,
                GlDeleteShader 1, GlDeleteShader 2])
   \<and> glfwWindowShouldClose_r (example_driver 0 1 2) 0 = 0
   \<and> glfwWindowShouldClose_r (example_driver 0 1 2) 1 = 0
   \<and> glfwWindowShouldClose_r (example_driver 0 1 2) 2 \<noteq> 0
   \<and> main (example_driver 0 1 2) = Some (Inr (0,
         setup_calls (example_driver 0 1 2) 1
           \<lparr>vertexSource = ''void main(){}\<newline>'', fragmentSource = ''void main(){}\<newline>''\<rparr>
         @ [GlfwWindowShouldClose 1, GlClear GL_COLOR_BUFFER_BIT,
            GlDrawElements GL_TRIANGLES 6 GL_UNSIGNED_INT 0, GlfwSwapBuffers 1, GlfwPollEvents,
            GlfwWindowShouldClose 1, GlClear GL_COLOR_BUFFER_BIT,
            GlDrawElements GL_TRIANGLES 6 GL_UNSIGNED_INT 0, GlfwSwapBuffers 1, GlfwPollEvents,
            GlfwWindowShouldClose 1, GlDeleteProgram 3, GlfwTerminate]))
   \<and> filter is_GlDeleteProgram (calls_of (main (example_driver 0 1 2))) = [GlDeleteProgram 3]
   \<and> return_value (main (example_driver 0 1 2)) = Some 0
   \<and> (\<forall>k. glfwWindowShouldClose_r
              ((example_driver 0 1 0)\<lparr>glfwWindowShouldClose_r := \<lambda>k. 0\<rparr>) k = 0)
   \<and> main ((example_driver 0 1 0)\<lparr>glfwWindowShouldClose_r := \<lambda>k. 0\<rparr>) = None"
proof -
  let ?d = "example_driver 0 1 2"
  let ?never = "(example_driver 0 1 0)\<lparr>glfwWindowShouldClose_r := \<lambda>k. 0\<rparr>"
  let ?src = "''void main(){}\<newline>''"
  let ?source = "\<lparr>vertexSource = ?src, fragmentSource = ?src\<rparr>"
  have init: "glfwInit_r ?d \<noteq> 0" and window: "glfwCreateWindow_r ?d = Some 1"
    and tests: "glfwWindowShouldClose_r ?d 0 = 0" "glfwWindowShouldClose_r ?d 1 = 0"
      "glfwWindowShouldClose_r ?d 2 \<noteq> 0"
    and program: "glCreateProgram_r ?d = 3"
    by (simp_all add: example_driver_def)
  note parse = example_parse [of 0 1 2]
  note closes = example_closes [of 0 1 2]
  note create = example_create [of 0 2]
  have created: "CreateShader ?d (vertexSource ?source) (fragmentSource ?source) =
      Inr (3, [GlCreateProgram,
               GlCreateShader GL_VERTEX_SHADER, GlShaderSource 1 ?src,
               GlCompileShader 1, GlGetShaderiv 1 GL_COMPILE_STATUS,
               GlCreateShader GL_FRAGMENT_SHADER, GlShaderSource 2 ?src,
               GlCompileShader 2, GlGetShaderiv 2 GL_COMPILE_STATUS,
               GlAttachShader 3 1, GlAttachShader 3 2, GlLinkProgram 3, GlValidateProgram 3,
               GlDeleteShader 1, GlDeleteShader 2])"
    using create by simp
  note run = render_loop_running_until_close [OF init window parse created, of 2]
  from run closes have frames: "main ?d = Some (Inr (0,
      setup_calls ?d 1 ?source
      @ concat (replicate 2
          [GlfwWindowShouldClose 1, GlClear GL_COLOR_BUFFER_BIT,
           GlDrawElements GL_TRIANGLES 6 GL_UNSIGNED_INT 0, GlfwSwapBuffers 1, GlfwPollEvents])
      @ [GlfwWindowShouldClose 1, GlDeleteProgram (glCreateProgram_r ?d), GlfwTerminate]))"
    by blast
  from run closes have del: "filter is_GlDeleteProgram (calls_of (main ?d)) =
      [GlDeleteProgram (glCreateProgram_r ?d)]"
    by blast
  from run closes have ret: "return_value (main ?d) = Some 0"
    by blast
  have unroll: "concat (replicate 2 [a, b, c, e, f]) = [a, b, c, e, f, a, b, c, e, f]"
    for a b c e f :: call
    by (simp add: numeral_2_eq_2)
  from frames have trace: "main ?d = Some (Inr (0,
      setup_calls ?d 1 ?source
      @ [GlfwWindowShouldClose 1, GlClear GL_COLOR_BUFFER_BIT,
         GlDrawElements GL_TRIANGLES 6 GL_UNSIGNED_INT 0, GlfwSwapBuffers 1, GlfwPollEvents,
         GlfwWindowShouldClose 1, GlClear GL_COLOR_BUFFER_BIT,
         GlDrawElements GL_TRIANGLES 6 GL_UNSIGNED_INT 0, GlfwSwapBuffers 1, GlfwPollEvents,
         GlfwWindowShouldClose 1, GlDeleteProgram 3, GlfwTerminate]))"
    by (simp only: program unroll append.simps)
  have never: "\<forall>k. glfwWindowShouldClose_r ?never k = 0"
    by simp
  have never_create: "CreateShader ?never (vertexSource ?source) (fragmentSource ?source) =
      CreateShader (example_driver 0 1 0) ?src ?src"
    by (simp add: CreateShader_def CompileShader_def Let_def)
  have never_init: "glfwInit_r ?never \<noteq> 0"
    and never_window: "glfwCreateWindow_r ?never = Some 1"
    and never_parse: "ParseShader (files ?never) ''res/shaders/Basic.shader'' = Inr ?source"
    using example_parse [of 0 1 0] by (simp_all add: example_driver_def)
  have never_created: "CreateShader ?never (vertexSource ?source) (fragmentSource ?source) =
      Inr (3, [GlCreateProgram,
               GlCreateShader GL_VERTEX_SHADER, GlShaderSource 1 ?src,
               GlCompileShader 1, GlGetShaderiv 1 GL_COMPILE_STATUS,
               GlCreateShader GL_FRAGMENT_SHADER, GlShaderSource 2 ?src,
               GlCompileShader 2, GlGetShaderiv 2 GL_COMPILE_STATUS,
               GlAttachShader 3 1, GlAttachShader 3 2, GlLinkProgram 3, GlValidateProgram 3,
               GlDeleteShader 1, GlDeleteShader 2])"
    by (simp only: never_create example_create [of 0 0])
  from render_loop_running_until_close [OF never_init never_window never_parse never_created, of 0]
    never
  have forever: "main ?never = None"
    by blast
  from init window parse create tests trace del ret never forever show ?thesis
    by (simp only: program simp_thms)
qed

lemma setup_calls_draws: "filter is_GlDrawElements (setup_calls d w source) = []"
proof (cases "CreateShader d (vertexSource source) (fragmentSource source)")
  case (Inl e)
  then show ?thesis by (simp add: setup_calls_def)
next
  case (Inr created)
  obtain shader shader_calls where "created = (shader, shader_calls)" by (cases created)
  with Inr have created:
    "CreateShader d (vertexSource source) (fragmentSource source) = Inr (shader, shader_calls)"
    by simp
  show ?thesis
    by (simp add: setup_calls_created [OF created] CreateShader_calls_plain [OF created]
        make_context_def upload_geometry_def Let_def is_GlDrawElements_def)
qed

lemma upload_geometry_uploads:
  "filter is_GlBufferData (upload_geometry d) =
     [GlBufferData GL_ARRAY_BUFFER (6 * 2 * sizeof_float) (FloatArray positions) GL_STATIC_DRAW,
      GlBufferData GL_ELEMENT_ARRAY_BUFFER (6 * sizeof_unsigned_int) (UIntArray indices)
        GL_STATIC_DRAW]"
  by (simp add: upload_geometry_def Let_def is_GlBufferData_def)

lemma setup_calls_uploads:
  assumes "CreateShader d (vertexSource source) (fragmentSource source) =
    Inr (shader, shader_calls)"
  shows "filter is_GlBufferData (setup_calls d w source) =
    filter is_GlBufferData (upload_geometry d)"
  by (simp add: setup_calls_created [OF assms] CreateShader_calls_plain [OF assms]
      make_context_def is_GlBufferData_def)

lemma frames_draws:
  "filter is_GlDrawElements (concat (replicate n (GlfwWindowShouldClose w # frame w))) =
   replicate n (GlDrawElements GL_TRIANGLES 6 GL_UNSIGNED_INT 0)"
  by (induction n) (simp_all add: frame_def is_GlDrawElements_def)

lemma frames_uploads:
  "filter is_GlBufferData (concat (replicate n (GlfwWindowShouldClose w # frame w))) = []"
  by (induction n) (simp_all add: frame_def is_GlBufferData_def)

text \<open>
  C9. Every element of the index array is below 4, so that both floats of the vertex it
  names lie within the position array. Every iteration of the loop issues the same draw
  call over all 6 indices and no upload; in a whole run the only uploads are the two made
  before the loop, of the position array and of the index array.
\<close>

theorem draw_indices_within_positions:
  "(\<forall>i \<in> set indices. unat i < 4 \<and> 2 * unat i + 1 < length positions)
   \<and> length indices = 6
   \<and> filter is_GlDrawElements (frame w) =
       [GlDrawElements GL_TRIANGLES (length indices) GL_UNSIGNED_INT 0]
   \<and> filter is_GlBufferData (frame w) = []
   \<and> (glfwInit_r d \<noteq> 0 \<and> glfwCreateWindow_r d = Some w
        \<and> ParseShader (files d) ''res/shaders/Basic.shader'' = Inr source
        \<and> CreateShader d (vertexSource source) (fragmentSource source) =
            Inr (shader, shader_calls)
        \<and> closes_at d n \<longrightarrow>
        filter is_GlDrawElements (calls_of (main d)) =
          replicate n (GlDrawElements GL_TRIANGLES (length indices) GL_UNSIGNED_INT 0)
        \<and> filter is_GlBufferData (calls_of (main d)) =
            [GlBufferData GL_ARRAY_BUFFER (6 * 2 * sizeof_float) (FloatArray positions)
               GL_STATIC_DRAW,
             GlBufferData GL_ELEMENT_ARRAY_BUFFER (6 * sizeof_unsigned_int) (UIntArray indices)
               GL_STATIC_DRAW]
        \<and> filter is_GlBufferData (drop (length (setup_calls d w source)) (calls_of (main d)))
            = [])"
proof (intro conjI impI)
  show "\<forall>i \<in> set indices. unat i < 4 \<and> 2 * unat i + 1 < length positions"
    by (simp add: indices_def positions_def)
  show len: "length indices = 6"
    by (simp add: indices_def)
  show "filter is_GlDrawElements (frame w) =
      [GlDrawElements GL_TRIANGLES (length indices) GL_UNSIGNED_INT 0]"
    by (simp add: frame_def is_GlDrawElements_def len)
  show "filter is_GlBufferData (frame w) = []"
    by (simp add: frame_def is_GlBufferData_def)
next
  assume run: "glfwInit_r d \<noteq> 0 \<and> glfwCreateWindow_r d = Some w
      \<and> ParseShader (files d) ''res/shaders/Basic.shader'' = Inr source
      \<and> CreateShader d (vertexSource source) (fragmentSource source) = Inr (shader, shader_calls)
      \<and> closes_at d n"
  have len: "length indices = 6"
    by (simp add: indices_def)
  from run have created:
    "CreateShader d (vertexSource source) (fragmentSource source) = Inr (shader, shader_calls)"
    by simp
  from run have calls: "calls_of (main d) =
      setup_calls d w source
      @ concat (replicate n (GlfwWindowShouldClose w # frame w))
      @ [GlfwWindowShouldClose w, GlDeleteProgram shader, GlfwTerminate]"
    by (simp add: main_closes [of d w source shader shader_calls n])
  show "filter is_GlDrawElements (calls_of (main d)) =
      replicate n (GlDrawElements GL_TRIANGLES (length indices) GL_UNSIGNED_INT 0)"
    by (simp add: calls setup_calls_draws frames_draws len is_GlDrawElements_def)
  show "filter is_GlBufferData (calls_of (main d)) =
      [GlBufferData GL_ARRAY_BUFFER (6 * 2 * sizeof_float) (FloatArray positions)
         GL_STATIC_DRAW,
       GlBufferData GL_ELEMENT_ARRAY_BUFFER (6 * sizeof_unsigned_int) (UIntArray indices)
         GL_STATIC_DRAW]"
    by (simp add: calls setup_calls_uploads [OF created] upload_geometry_uploads frames_uploads
        is_GlBufferData_def)
  show "filter is_GlBufferData (drop (length (setup_calls d w source)) (calls_of (main d)))
      = []"
    by (simp add: calls frames_uploads is_GlBufferData_def)
qed

theorem draw_indices_within_positions_witness:
  "list_all (\<lambda>i. unat i < 4 \<and> 2 * unat i + 1 < length positions) indices
   \<and> glfwInit_r (example_driver 0 1 2) \<noteq> 0
   \<and> glfwCreateWindow_r (example_driver 0 1 2) = Some 1
   \<and> ParseShader (files (example_driver 0 1 2)) ''res/shaders/Basic.shader'' =
       Inr \<lparr>vertexSource = ''void main(){}\<newline>'', fragmentSource = ''void main(){}\<newline>''\<rparr>
   \<and> CreateShader (example_driver 0 1 2) ''void main(){}\<newline>'' ''void main(){}\<newline>'' =
       Inr (3, [GlCreateProgram,
                GlCreateShader GL_VERTEX_SHADER, GlShaderSource 1 ''void main(){}\<newline>'',
                GlCompileShader 1, GlGetShaderiv 1 GL_COMPILE_STATUS,
                GlCreateShader GL_FRAGMENT_SHADER, GlShaderSource 2 ''void main(){}\<newline>'',
                GlCompileShader 2, GlGetShaderiv 2 GL_COMPILE_STATUS,
                GlAttachShader 3 1, GlAttachShader 3 2, GlLinkProgram 3, GlValidateProgram 3,
                GlDeleteShader 1, GlDeleteShader 2])
   \<and> glfwWindowShouldClose_r (example_driver 0 1 2) 0 = 0
   \<and> glfwWindowShouldClose_r (example_driver 0 1 2) 1 = 0
   \<and> glfwWindowShouldClose_r (example_driver 0 1 2) 2 \<noteq> 0
   \<and> filter is_GlDrawElements (calls_of (main (example_driver 0 1 2))) =
       [GlDrawElements GL_TRIANGLES 6 GL_UNSIGNED_INT 0,
        GlDrawElements GL_TRIANGLES 6 GL_UNSIGNED_INT 0]
   \<and> filter is_GlBufferData (calls_of (main (example_driver 0 1 2))) =
       [GlBufferData GL_ARRAY_BUFFER 48 (FloatArray positions) GL_STATIC_DRAW,
        GlBufferData GL_ELEMENT_ARRAY_BUFFER 24 (UIntArray indices) GL_STATIC_DRAW]"
proof -
  let ?d = "example_driver 0 1 2"
  let ?src = "''void main(){}\<newline>''"
  let ?source = "\<lparr>vertexSource = ?src, fragmentSource = ?src\<rparr>"
  let ?shader_calls = "[GlCreateProgram,
      GlCreateShader GL_VERTEX_SHADER, GlShaderSource 1 ?src,
      GlCompileShader 1, GlGetShaderiv 1 GL_COMPILE_STATUS,
      GlCreateShader GL_FRAGMENT_SHADER, GlShaderSource 2 ?src,
      GlCompileShader 2, GlGetShaderiv 2 GL_COMPILE_STATUS,
      GlAttachShader 3 1, GlAttachShader 3 2, GlLinkProgram 3, GlValidateProgram 3,
      GlDeleteShader 1, GlDeleteShader 2]"
  have init: "glfwInit_r ?d \<noteq> 0" and window: "glfwCreateWindow_r ?d = Some 1"
    and tests: "glfwWindowShouldClose_r ?d 0 = 0" "glfwWindowShouldClose_r ?d 1 = 0"
      "glfwWindowShouldClose_r ?d 2 \<noteq> 0"
    by (simp_all add: example_driver_def)
  note parse = example_parse [of 0 1 2]
  note closes = example_closes [of 0 1 2]
  note create = example_create [of 0 2]
  note inst = draw_indices_within_positions [of 1 ?d ?source 3 ?shader_calls 2]
  from inst have "\<forall>i \<in> set indices. unat i < 4 \<and> 2 * unat i + 1 < length positions"
    by blast
  then have bounds: "list_all (\<lambda>i. unat i < 4 \<and> 2 * unat i + 1 < length positions) indices"
    by (simp only: list_all_iff)
  from inst have len: "length indices = 6"
    by blast
  have run: "glfwInit_r ?d \<noteq> 0 \<and> glfwCreateWindow_r ?d = Some 1
      \<and> ParseShader (files ?d) ''res/shaders/Basic.shader'' = Inr ?source
      \<and> CreateShader ?d (vertexSource ?source) (fragmentSource ?source) = Inr (3, ?shader_calls)
      \<and> closes_at ?d 2"
    using init window parse closes create by simp
  with inst have "filter is_GlDrawElements (calls_of (main ?d)) =
      replicate 2 (GlDrawElements GL_TRIANGLES (length indices) GL_UNSIGNED_INT 0)"
    by blast
  then have draws: "filter is_GlDrawElements (calls_of (main ?d)) =
      [GlDrawElements GL_TRIANGLES 6 GL_UNSIGNED_INT 0,
       GlDrawElements GL_TRIANGLES 6 GL_UNSIGNED_INT 0]"
    by (simp add: len numeral_2_eq_2)
  from inst run have "filter is_GlBufferData (calls_of (main ?d)) =
      [GlBufferData GL_ARRAY_BUFFER (6 * 2 * sizeof_float) (FloatArray positions)
         GL_STATIC_DRAW,
       GlBufferData GL_ELEMENT_ARRAY_BUFFER (6 * sizeof_unsigned_int) (UIntArray indices)
         GL_STATIC_DRAW]"
    by blast
  then have uploads: "filter is_GlBufferData (calls_of (main ?d)) =
      [GlBufferData GL_ARRAY_BUFFER 48 (FloatArray positions) GL_STATIC_DRAW,
       GlBufferData GL_ELEMENT_ARRAY_BUFFER 24 (UIntArray indices) GL_STATIC_DRAW]"
    by (simp add: sizeof_float_def sizeof_unsigned_int_def)
  from bounds init window parse create tests draws uploads show ?thesis
    by (simp only: simp_thms)
qed

subsection \<open>The geometry upload\<close>

text \<open>
  C3, on a run that reaches the upload: the size passed with the position array is
  \<open>6 * 2 * sizeof(float)\<close>, 48 bytes, while the array has 8 floats, 32 bytes. The index
  upload passes 24 bytes, the size of the index array.
\<close>

theorem vertex_upload_size_exceeds_positions:
  "filter is_GlBufferData (calls_of (main (example_driver 0 1 0))) =
     [GlBufferData GL_ARRAY_BUFFER 48 (FloatArray positions) GL_STATIC_DRAW,
      GlBufferData GL_ELEMENT_ARRAY_BUFFER 24 (UIntArray indices) GL_STATIC_DRAW]
   \<and> sizeof_array (FloatArray positions) = 32
   \<and> sizeof_array (UIntArray indices) = 24"
proof -
  let ?d = "example_driver 0 1 0"
  let ?source = "\<lparr>vertexSource = ''void main(){}\<newline>'', fragmentSource = ''void main(){}\<newline>''\<rparr>"
  have init: "glfwInit_r ?d \<noteq> 0" and window: "glfwCreateWindow_r ?d = Some 1"
    by (simp_all add: example_driver_def)
  obtain shader_calls where created:
    "CreateShader ?d (vertexSource ?source) (fragmentSource ?source) = Inr (3, shader_calls)"
    using example_create [of 0 0] by simp
  have "calls_of (main ?d) =
      setup_calls ?d 1 ?source
      @ concat (replicate 0 (GlfwWindowShouldClose 1 # frame 1))
      @ [GlfwWindowShouldClose 1, GlDeleteProgram 3, GlfwTerminate]"
    by (simp only: main_closes [OF init window example_parse created example_closes]
        calls_of.simps)
  then show ?thesis
    by (simp add: setup_calls_uploads [OF created] upload_geometry_uploads is_GlBufferData_def
        sizeof_float_def sizeof_unsigned_int_def positions_def indices_def)
qed

subsection \<open>The value main returns\<close>

text \<open>
  C4, as stated, fails: with a failing \<^verbatim>\<open>glewInit\<close> the program prints \<open>ERROR\<close>, goes
  on, and returns 0 when the window is closed.
\<close>

theorem main_returns_0_after_glewInit_failure:
  "glewInit_r (example_driver 1 1 0) \<noteq> GLEW_OK
   \<and> return_value (main (example_driver 1 1 0)) = Some 0"
proof -
  let ?d = "example_driver 1 1 0"
  let ?source = "\<lparr>vertexSource = ''void main(){}\<newline>'', fragmentSource = ''void main(){}\<newline>''\<rparr>"
  have init: "glfwInit_r ?d \<noteq> 0" and window: "glfwCreateWindow_r ?d = Some 1"
    by (simp_all add: example_driver_def)
  obtain shader_calls where created:
    "CreateShader ?d (vertexSource ?source) (fragmentSource ?source) = Inr (3, shader_calls)"
    using example_create [of 1 0] by simp
  from main_closes [OF init window example_parse created example_closes]
  have "return_value (main ?d) = Some 0"
    by simp
  then show ?thesis
    by (simp add: example_driver_def GLEW_OK_def)
qed

lemma main_return_cases:
  "(return_value (main d) = Some (- 1) \<longleftrightarrow> glfwInit_r d = 0 \<or> glfwCreateWindow_r d = None)
   \<and> (return_value (main d) = Some 0 \<longleftrightarrow>
        glfwInit_r d \<noteq> 0 \<and> glfwCreateWindow_r d \<noteq> None
        \<and> (\<exists>source created.
              ParseShader (files d) ''res/shaders/Basic.shader'' = Inr source
              \<and> CreateShader d (vertexSource source) (fragmentSource source) = Inr created)
        \<and> (\<exists>k. glfwWindowShouldClose_r d k \<noteq> 0))
   \<and> return_value (main d) \<in> {None, Some 0, Some (- 1)}"
proof (cases "glfwInit_r d = 0")
  case True
  then show ?thesis by (simp add: main_def)
next
  case init: False
  show ?thesis
  proof (cases "glfwCreateWindow_r d")
    case None
    with init show ?thesis by (simp add: main_def)
  next
    case (Some w)
    show ?thesis
    proof (cases "ParseShader (files d) ''res/shaders/Basic.shader''")
      case (Inl e)
      with init Some have "main d = Some (Inl e)" by (simp add: main_def)
      with init Some Inl show ?thesis by simp
    next
      case (Inr source)
      show ?thesis
      proof (cases "CreateShader d (vertexSource source) (fragmentSource source)")
        case (Inl e)
        with init Some Inr have "main d = Some (Inl e)" by (simp add: main_def)
        with init Some Inr Inl show ?thesis by simp
      next
        case created: (Inr created)
        obtain shader shader_calls where "created = (shader, shader_calls)" by (cases created)
        with created have create:
          "CreateShader d (vertexSource source) (fragmentSource source) =
           Inr (shader, shader_calls)"
          by simp
        note run = main_running [OF init Some Inr create]
        show ?thesis
        proof (cases "render_loop d w 0 (setup_calls d w source)")
          case None
          then have "\<not> (\<exists>k. glfwWindowShouldClose_r d k \<noteq> 0)"
            using render_loop_Some_iff [of d w "setup_calls d w source"] by simp
          with None run init Some Inr show ?thesis by simp
        next
          case looped: (Some calls)
          then have "\<exists>k. glfwWindowShouldClose_r d k \<noteq> 0"
            using render_loop_Some_iff [of d w "setup_calls d w source"] by blast
          with looped run init Some Inr create show ?thesis by simp
        qed
      qed
    qed
  qed
qed

text \<open>
  C4, amended. \<^verbatim>\<open>main\<close> returns \<open>-1\<close> exactly when \<^verbatim>\<open>glfwInit\<close> fails or the window cannot
  be created. It returns 0 exactly when both succeed, \<^verbatim>\<open>ParseShader\<close> and
  \<^verbatim>\<open>CreateShader\<close> stay within defined behaviour and some test of the loop condition
  reports a close request. It returns no other value, and the answer of \<^verbatim>\<open>glewInit\<close> has
  no influence on the value returned.
\<close>

theorem main_return_value:
  "(return_value (main d) = Some (- 1) \<longleftrightarrow> glfwInit_r d = 0 \<or> glfwCreateWindow_r d = None)
   \<and> (return_value (main d) = Some 0 \<longleftrightarrow>
        glfwInit_r d \<noteq> 0 \<and> glfwCreateWindow_r d \<noteq> None
        \<and> (\<exists>source created.
              ParseShader (files d) ''res/shaders/Basic.shader'' = Inr source
              \<and> CreateShader d (vertexSource source) (fragmentSource source) = Inr created)
        \<and> (\<exists>k. glfwWindowShouldClose_r d k \<noteq> 0))
   \<and> return_value (main d) \<in> {None, Some 0, Some (- 1)}
   \<and> return_value (main (d\<lparr>glewInit_r := glew\<rparr>)) = return_value (main d)"
proof -
  let ?A = "glfwInit_r d = 0 \<or> glfwCreateWindow_r d = None"
  let ?B = "glfwInit_r d \<noteq> 0 \<and> glfwCreateWindow_r d \<noteq> None
      \<and> (\<exists>source created.
            ParseShader (files d) ''res/shaders/Basic.shader'' = Inr source
            \<and> CreateShader d (vertexSource source) (fragmentSource source) = Inr created)
      \<and> (\<exists>k. glfwWindowShouldClose_r d k \<noteq> 0)"
  let ?r = "return_value (main d)"
  let ?r' = "return_value (main (d\<lparr>glewInit_r := glew\<rparr>))"
  note cases_here = main_return_cases [of d]
  have here: "?r = Some (- 1) \<longleftrightarrow> ?A" "?r = Some 0 \<longleftrightarrow> ?B" "?r \<in> {None, Some 0, Some (- 1)}"
    by (rule cases_here [THEN conjunct1], rule cases_here [THEN conjunct2, THEN conjunct1],
        rule cases_here [THEN conjunct2, THEN conjunct2])
  have fields: "glfwInit_r (d\<lparr>glewInit_r := glew\<rparr>) = glfwInit_r d"
    "glfwCreateWindow_r (d\<lparr>glewInit_r := glew\<rparr>) = glfwCreateWindow_r d"
    "files (d\<lparr>glewInit_r := glew\<rparr>) = files d"
    "glfwWindowShouldClose_r (d\<lparr>glewInit_r := glew\<rparr>) = glfwWindowShouldClose_r d"
    by simp_all
  note cases_there =
    main_return_cases [of "d\<lparr>glewInit_r := glew\<rparr>", unfolded fields CreateShader_glewInit]
  have there: "?r' = Some (- 1) \<longleftrightarrow> ?A" "?r' = Some 0 \<longleftrightarrow> ?B"
    "?r' \<in> {None, Some 0, Some (- 1)}"
    by (rule cases_there [THEN conjunct1], rule cases_there [THEN conjunct2, THEN conjunct1],
        rule cases_there [THEN conjunct2, THEN conjunct2])
  from here(3) there(3) have "?r' = ?r"
  proof (elim insertE)
    assume "?r = None" "?r' = None"
    then show ?thesis by simp
  qed (use here(1,2) there(1,2) in auto)
  with here show ?thesis by blast
qed

theorem main_return_value_witness:
  "glfwInit_r (example_driver 1 1 0) \<noteq> 0
   \<and> glfwCreateWindow_r (example_driver 1 1 0) \<noteq> None
   \<and> glewInit_r (example_driver 1 1 0) \<noteq> GLEW_OK
   \<and> glfwWindowShouldClose_r (example_driver 1 1 0) 0 \<noteq> 0
   \<and> return_value (main (example_driver 1 1 0)) = Some 0
   \<and> glfwInit_r ((example_driver 0 1 0)\<lparr>glfwInit_r := 0\<rparr>) = 0
   \<and> return_value (main ((example_driver 0 1 0)\<lparr>glfwInit_r := 0\<rparr>)) = Some (- 1)
   \<and> glfwCreateWindow_r ((example_driver 0 1 0)\<lparr>glfwCreateWindow_r := None\<rparr>) = None
   \<and> return_value (main ((example_driver 0 1 0)\<lparr>glfwCreateWindow_r := None\<rparr>)) = Some (- 1)"
proof -
  have ok: "glfwInit_r (example_driver 1 1 0) \<noteq> 0"
    "glfwCreateWindow_r (example_driver 1 1 0) \<noteq> None"
    "glewInit_r (example_driver 1 1 0) \<noteq> GLEW_OK"
    "glfwWindowShouldClose_r (example_driver 1 1 0) 0 \<noteq> 0"
    by (simp_all add: example_driver_def GLEW_OK_def)
  have "\<exists>source created.
      ParseShader (files (example_driver 1 1 0)) ''res/shaders/Basic.shader'' = Inr source
      \<and> CreateShader (example_driver 1 1 0) (vertexSource source) (fragmentSource source) =
          Inr created"
    using example_parse [of 1 1 0] example_create [of 1 0] by simp
  moreover from ok(4) have "\<exists>k. glfwWindowShouldClose_r (example_driver 1 1 0) k \<noteq> 0"
    by blast
  ultimately have zero: "return_value (main (example_driver 1 1 0)) = Some 0"
    using main_return_value [of "example_driver 1 1 0" 0] ok(1,2) by blast
  have no_init: "return_value (main ((example_driver 0 1 0)\<lparr>glfwInit_r := 0\<rparr>)) = Some (- 1)"
    using main_return_value [of "(example_driver 0 1 0)\<lparr>glfwInit_r := 0\<rparr>" 0] by simp
  have no_window:
    "return_value (main ((example_driver 0 1 0)\<lparr>glfwCreateWindow_r := None\<rparr>)) = Some (- 1)"
    using main_return_value [of "(example_driver 0 1 0)\<lparr>glfwCreateWindow_r := None\<rparr>" 0]
    by simp
  from ok zero no_init no_window show ?thesis by simp
qed

end
